theory Spec2Isabelle
  imports Main
begin

section \<open>JavaScript values\<close>

text \<open>
  The documents handed to the core are results of \<^verbatim>\<open>JSON.parse\<close>. An object is kept as
  the list of its own entries in enumeration order, an array as the list of its items
  together with its address: two arrays are the same JavaScript object exactly when
  their addresses are equal, which is what \<^verbatim>\<open>===\<close> compares.
  Numbers are the integers of magnitude below \<open>2^53\<close>, which \<^verbatim>\<open>JSON.parse\<close> reads
  exactly and \<^verbatim>\<open>String\<close> prints as their decimal numeral; the functions below only
  compare and print them. A larger integer of the model stands for no number of the
  language, and fractions are left out.
  Every parsed object inherits from \<^verbatim>\<open>Object.prototype\<close>; two further constructors
  stand for what a property read can reach there: the prototype object itself (behind
  \<^verbatim>\<open>__proto__\<close>) and its built-in functions.
\<close>

datatype jsval =
    JUndefined
  | JNull
  | JBool bool
  | JNum int
  | JStr string
  | JArr nat "jsval list"
  | JObj "(string \<times> jsval) list"
  | JObjectPrototype
  | JBuiltin string

text \<open>The property names of a pristine \<^verbatim>\<open>Object.prototype\<close>.\<close>

definition objectPrototypeKeys :: "string list" where
  "objectPrototypeKeys =
     [''constructor'', ''__defineGetter__'', ''__defineSetter__'', ''hasOwnProperty'',
      ''__lookupGetter__'', ''__lookupSetter__'', ''isPrototypeOf'',
      ''propertyIsEnumerable'', ''toString'', ''valueOf'', ''__proto__'',
      ''toLocaleString'']"

text \<open>What an object with no own property \<open>k\<close> inherits under \<open>k\<close>.\<close>

definition inherited :: "string \<Rightarrow> jsval option" where
  "inherited k =
     (if k = ''__proto__'' then Some JObjectPrototype
      else if k \<in> set objectPrototypeKeys then Some (JBuiltin k)
      else None)"

text \<open>\<^verbatim>\<open>Object.prototype[k]\<close>: its own members; its own prototype is null.\<close>

definition prototypeMember :: "string \<Rightarrow> jsval option" where
  "prototypeMember k =
     (if k = ''__proto__'' then Some JNull
      else if k \<in> set objectPrototypeKeys then Some (JBuiltin k)
      else None)"

text \<open>
  \<^verbatim>\<open>value && typeof value === 'object' && !Array.isArray(value)\<close>: objects other than
  arrays. Null is falsy, a function has type \<^verbatim>\<open>'function'\<close>.
\<close>

fun isNonArrayObject :: "jsval \<Rightarrow> bool" where
  "isNonArrayObject (JObj kvs) = True"
| "isNonArrayObject JObjectPrototype = True"
| "isNonArrayObject _ = False"

text \<open>
  \<^verbatim>\<open>value[k]\<close> on a non-array object, \<open>None\<close> when \<^verbatim>\<open>k in value\<close> is false. The
  \<^verbatim>\<open>in\<close> operator walks the prototype chain, so inherited names are found too.
\<close>

fun lookupIn :: "jsval \<Rightarrow> string \<Rightarrow> jsval option" where
  "lookupIn (JObj kvs) k =
     (case map_of kvs k of Some v \<Rightarrow> Some v | None \<Rightarrow> inherited k)"
| "lookupIn JObjectPrototype k = prototypeMember k"
| "lookupIn _ k = None"

text \<open>The own keys of a value, as \<^verbatim>\<open>Object.keys\<close> lists them for a parsed object.\<close>

fun ownKeys :: "jsval \<Rightarrow> string list" where
  "ownKeys (JObj kvs) = map fst kvs"
| "ownKeys _ = []"

section \<open>Strings\<close>

text \<open>
  A string is the list of its code units, each below 256. The helpers follow the
  \<^verbatim>\<open>String.prototype\<close> methods and the regular expressions that the sources use.
\<close>

definition isDigit :: "char \<Rightarrow> bool" where
  "isDigit c = (48 \<le> (of_char c :: nat) \<and> (of_char c :: nat) \<le> 57)"

text \<open>\<^verbatim>\<open>[a-zA-Z_]\<close>\<close>

definition isIdentStart :: "char \<Rightarrow> bool" where
  "isIdentStart c =
     ((65 \<le> (of_char c :: nat) \<and> (of_char c :: nat) \<le> 90)
      \<or> (97 \<le> (of_char c :: nat) \<and> (of_char c :: nat) \<le> 122)
      \<or> c = CHR ''_'')"

text \<open>\<^verbatim>\<open>[a-zA-Z0-9_-]\<close>\<close>

definition isIdentChar :: "char \<Rightarrow> bool" where
  "isIdentChar c = (isIdentStart c \<or> isDigit c \<or> c = CHR ''-'')"

text \<open>White space and line terminators, as \<^verbatim>\<open>trim\<close> removes them.\<close>

definition isSpace :: "char \<Rightarrow> bool" where
  "isSpace c = ((of_char c :: nat) \<in> {9, 10, 11, 12, 13, 32, 160})"

definition trim :: "string \<Rightarrow> string" where
  "trim s = rev (dropWhile isSpace (rev (dropWhile isSpace s)))"

definition startsWith :: "string \<Rightarrow> string \<Rightarrow> bool" where
  "startsWith s p = (take (length p) s = p)"

text \<open>\<^verbatim>\<open>s.slice(a, b)\<close> for \<open>a \<le> b\<close>; \<^verbatim>\<open>s.slice(a)\<close> is \<open>drop a s\<close>.\<close>

definition slice :: "nat \<Rightarrow> nat \<Rightarrow> string \<Rightarrow> string" where
  "slice a b s = take (b - a) (drop a s)"

text \<open>\<^verbatim>\<open>s.indexOf(c)\<close>, with \<open>None\<close> for \<open>-1\<close>.\<close>

fun indexOf :: "char \<Rightarrow> string \<Rightarrow> nat option" where
  "indexOf c [] = None"
| "indexOf c (x # xs) = (if x = c then Some 0 else map_option Suc (indexOf c xs))"

text \<open>\<^verbatim>\<open>s.split(c)\<close> for a one-character separator.\<close>

fun splitOn :: "char \<Rightarrow> string \<Rightarrow> string list" where
  "splitOn c [] = [[]]"
| "splitOn c (x # xs) =
     (if x = c then [] # splitOn c xs
      else (case splitOn c xs of
              [] \<Rightarrow> [[x]]
            | y # ys \<Rightarrow> (x # y) # ys))"

text \<open>\<^verbatim>\<open>parts.join(sep)\<close> on strings.\<close>

fun joinWith :: "string \<Rightarrow> string list \<Rightarrow> string" where
  "joinWith sep [] = []"
| "joinWith sep [x] = x"
| "joinWith sep (x # y # ys) = x @ sep @ joinWith sep (y # ys)"

text \<open>
  \<^verbatim>\<open>parseInt(ds, 10)\<close> on a string of digits, and the decimal numeral of a number.
  The value is exact; the code's is a double, rounded from \<open>2^53\<close> on. No array is that
  long, so an index token with such a value matches nothing in the code and in the
  model alike.
\<close>

definition digitValue :: "char \<Rightarrow> nat" where
  "digitValue c = of_char c - 48"

definition parseInt :: "string \<Rightarrow> nat" where
  "parseInt ds = foldl (\<lambda>acc c. 10 * acc + digitValue c) 0 ds"

definition digitChar :: "nat \<Rightarrow> char" where
  "digitChar d = char_of (48 + d)"

fun decimal :: "nat \<Rightarrow> string" where
  "decimal n = (if n < 10 then [digitChar n] else decimal (n div 10) @ [digitChar (n mod 10)])"

declare decimal.simps [simp del]

definition decimalInt :: "int \<Rightarrow> string" where
  "decimalInt i = (if i < 0 then CHR ''-'' # decimal (nat (- i)) else decimal (nat i))"

section \<open>Failures\<close>

text \<open>
  The three \<^verbatim>\<open>throw new Error(...)\<close> of \<^verbatim>\<open>parsePath\<close>, carrying the parts of their
  messages, and the \<^verbatim>\<open>TypeError\<close> that the language raises when a value cannot be
  converted to a string or calls a member that is no function. \<open>ProtoWrite\<close> is no
  failure of the code: it marks the point, named by the property path, where the
  merge goes on to write the prototype of an accumulator or a member of
  \<^verbatim>\<open>Object.prototype\<close>. The model does not follow the code beyond it: it is the code
  on a run that starts with \<^verbatim>\<open>Object.prototype\<close> as the language defines it, up to
  the first such write.
\<close>

datatype error =
    UnclosedBracket string
  | InvalidArrayAccessor string string
  | InvalidPathSyntax string string
  | TypeError
  | ProtoWrite string

fun isPathSyntaxError :: "error \<Rightarrow> bool" where
  "isPathSyntaxError (UnclosedBracket p) = True"
| "isPathSyntaxError (InvalidArrayAccessor i p) = True"
| "isPathSyntaxError (InvalidPathSyntax r p) = True"
| "isPathSyntaxError _ = False"

section \<open>Conversions of values\<close>

text \<open>\<^verbatim>\<open>!v\<close>: the falsy values.\<close>

fun falsy :: "jsval \<Rightarrow> bool" where
  "falsy JUndefined = True"
| "falsy JNull = True"
| "falsy (JBool b) = (\<not> b)"
| "falsy (JNum n) = (n = 0)"
| "falsy (JStr s) = (s = [])"
| "falsy _ = False"

text \<open>\<^verbatim>\<open>v === undefined || v === null\<close>\<close>

fun nullish :: "jsval \<Rightarrow> bool" where
  "nullish JUndefined = True"
| "nullish JNull = True"
| "nullish _ = False"

text \<open>The first result that is a failure, otherwise all the values.\<close>

fun sequenceE :: "(error + 'a) list \<Rightarrow> error + 'a list" where
  "sequenceE [] = Inr []"
| "sequenceE (Inl e # rs) = Inl e"
| "sequenceE (Inr x # rs) =
     (case sequenceE rs of Inl e \<Rightarrow> Inl e | Inr xs \<Rightarrow> Inr (x # xs))"

text \<open>A loop whose body may raise: the first failure ends it.\<close>

fun foldE :: "('s \<Rightarrow> 'a \<Rightarrow> error + 's) \<Rightarrow> 's \<Rightarrow> 'a list \<Rightarrow> error + 's" where
  "foldE f s [] = Inr s"
| "foldE f s (x # xs) = (case f s x of Inl e \<Rightarrow> Inl e | Inr s' \<Rightarrow> foldE f s' xs)"

text \<open>The name a built-in function of \<^verbatim>\<open>Object.prototype\<close> prints under.\<close>

definition builtinName :: "string \<Rightarrow> string" where
  "builtinName k = (if k = ''constructor'' then ''Object'' else k)"

text \<open>
  \<^verbatim>\<open>String(v)\<close>, which is also what a template literal and \<^verbatim>\<open>Array.prototype.join\<close>
  apply. An object is converted through its \<^verbatim>\<open>toString\<close> member: the inherited one
  prints \<^verbatim>\<open>[object Object]\<close>; an own entry of that name holds parsed data, which cannot
  be called, and then the inherited \<^verbatim>\<open>valueOf\<close> returns the object itself (an own one
  cannot be called either), so the conversion raises a \<^verbatim>\<open>TypeError\<close>. An array prints
  its items separated by commas, null and undefined items as the empty string.
\<close>

fun jsString :: "jsval \<Rightarrow> error + string" where
  "jsString JUndefined = Inr ''undefined''"
| "jsString JNull = Inr ''null''"
| "jsString (JBool b) = Inr (if b then ''true'' else ''false'')"
| "jsString (JNum n) = Inr (decimalInt n)"
| "jsString (JStr s) = Inr s"
| "jsString (JArr a xs) =
     (case sequenceE (map (\<lambda>x. if nullish x then Inr [] else jsString x) xs) of
        Inl e \<Rightarrow> Inl e
      | Inr strs \<Rightarrow> Inr (joinWith '','' strs))"
| "jsString (JObj kvs) =
     (if ''toString'' \<in> set (map fst kvs) then Inl TypeError
      else Inr ''[object Object]'')"
| "jsString JObjectPrototype = Inr ''[object Object]''"
| "jsString (JBuiltin k) = Inr (''function '' @ builtinName k @ ''() { [native code] }'')"

section \<open>Path engine\<close>

subsection \<open>parsePath\<close>

datatype token = ROOT | FIELD string | ALL_ITEMS | INDEX nat

text \<open>\<^verbatim>\<open>/^\d+$/.test(inside)\<close>\<close>

definition allDigits :: "string \<Rightarrow> bool" where
  "allDigits s = (s \<noteq> [] \<and> list_all isDigit s)"

text \<open>The group matched by \<^verbatim>\<open>/^(\d+)/\<close>, empty when the expression does not match.\<close>

definition leadingDigits :: "string \<Rightarrow> string" where
  "leadingDigits s = takeWhile isDigit s"

text \<open>The group matched by \<^verbatim>\<open>/^([a-zA-Z_][a-zA-Z0-9_-]*)/\<close>, empty when it does not match.\<close>

definition leadingIdent :: "string \<Rightarrow> string" where
  "leadingIdent s =
     (case s of
        [] \<Rightarrow> []
      | c # cs \<Rightarrow> (if isIdentStart c then c # takeWhile isIdentChar cs else []))"

text \<open>After a bracket: \<^verbatim>\<open>if (remaining.startsWith('.')) remaining = remaining.slice(1)\<close>.\<close>

definition consumeDotAfterBracket :: "string \<Rightarrow> string" where
  "consumeDotAfterBracket remaining =
     (if startsWith remaining ''.'' then drop 1 remaining else remaining)"

text \<open>After a number or a field name: the two-branch form of the same step.\<close>

definition consumeDot :: "string \<Rightarrow> string" where
  "consumeDot remaining =
     (if startsWith remaining ''.'' \<and> length remaining > 1 then drop 1 remaining
      else if remaining = ''.'' then []
      else remaining)"

lemma length_consumeDotAfterBracket: "length (consumeDotAfterBracket r) \<le> length r"
  by (simp add: consumeDotAfterBracket_def)

lemma length_consumeDot: "length (consumeDot r) \<le> length r"
  by (simp add: consumeDot_def)

text \<open>The \<^verbatim>\<open>while (remaining.length > 0)\<close> loop.\<close>

function parseSegments :: "string \<Rightarrow> string \<Rightarrow> token list \<Rightarrow> error + token list" where
  "parseSegments pathStr remaining tokens =
     (if remaining = [] then Inr tokens
      else if startsWith remaining ''['' then
        (case indexOf (CHR '']'') remaining of
           None \<Rightarrow> Inl (UnclosedBracket pathStr)
         | Some closeIdx \<Rightarrow>
             (if slice 1 closeIdx remaining = ''*'' then
                parseSegments pathStr
                  (consumeDotAfterBracket (drop (closeIdx + 1) remaining))
                  (tokens @ [ALL_ITEMS])
              else if allDigits (slice 1 closeIdx remaining) then
                parseSegments pathStr
                  (consumeDotAfterBracket (drop (closeIdx + 1) remaining))
                  (tokens @ [INDEX (parseInt (slice 1 closeIdx remaining))])
              else Inl (InvalidArrayAccessor (slice 1 closeIdx remaining) pathStr)))
      else if leadingDigits remaining \<noteq> [] then
        parseSegments pathStr
          (consumeDot (drop (length (leadingDigits remaining)) remaining))
          (tokens @ [INDEX (parseInt (leadingDigits remaining))])
      else if leadingIdent remaining \<noteq> [] then
        parseSegments pathStr
          (consumeDot (drop (length (leadingIdent remaining)) remaining))
          (tokens @ [FIELD (leadingIdent remaining)])
      else if startsWith remaining ''.'' then
        parseSegments pathStr (drop 1 remaining) tokens
      else Inl (InvalidPathSyntax remaining pathStr))"
  by pat_completeness auto

termination
proof (relation "measure (\<lambda>(pathStr, remaining, tokens). length remaining)")
  show "wf (measure (\<lambda>(pathStr, remaining, tokens). length remaining))" by simp
next
  fix pathStr remaining :: string and tokens :: "token list" and closeIdx :: nat
  assume "remaining \<noteq> []"
  then have "length (drop (closeIdx + 1) remaining) < length remaining" by simp
  then show "((pathStr, consumeDotAfterBracket (drop (closeIdx + 1) remaining),
               tokens @ [ALL_ITEMS]),
              pathStr, remaining, tokens)
             \<in> measure (\<lambda>(pathStr, remaining, tokens). length remaining)"
    using length_consumeDotAfterBracket [of "drop (closeIdx + 1) remaining"] by simp
next
  fix pathStr remaining :: string and tokens :: "token list" and closeIdx :: nat
  assume "remaining \<noteq> []"
  then have "length (drop (closeIdx + 1) remaining) < length remaining" by simp
  then show "((pathStr, consumeDotAfterBracket (drop (closeIdx + 1) remaining),
               tokens @ [INDEX (parseInt (slice 1 closeIdx remaining))]),
              pathStr, remaining, tokens)
             \<in> measure (\<lambda>(pathStr, remaining, tokens). length remaining)"
    using length_consumeDotAfterBracket [of "drop (closeIdx + 1) remaining"] by simp
next
  fix pathStr remaining :: string and tokens :: "token list"
  assume "remaining \<noteq> []" and "leadingDigits remaining \<noteq> []"
  then have "length (drop (length (leadingDigits remaining)) remaining) < length remaining"
    by simp
  then show "((pathStr, consumeDot (drop (length (leadingDigits remaining)) remaining),
               tokens @ [INDEX (parseInt (leadingDigits remaining))]),
              pathStr, remaining, tokens)
             \<in> measure (\<lambda>(pathStr, remaining, tokens). length remaining)"
    using length_consumeDot [of "drop (length (leadingDigits remaining)) remaining"] by simp
next
  fix pathStr remaining :: string and tokens :: "token list"
  assume "remaining \<noteq> []" and "leadingIdent remaining \<noteq> []"
  then have "length (drop (length (leadingIdent remaining)) remaining) < length remaining"
    by simp
  then show "((pathStr, consumeDot (drop (length (leadingIdent remaining)) remaining),
               tokens @ [FIELD (leadingIdent remaining)]),
              pathStr, remaining, tokens)
             \<in> measure (\<lambda>(pathStr, remaining, tokens). length remaining)"
    using length_consumeDot [of "drop (length (leadingIdent remaining)) remaining"] by simp
next
  fix pathStr remaining :: string and tokens :: "token list"
  assume "remaining \<noteq> []"
  then show "((pathStr, drop 1 remaining, tokens), pathStr, remaining, tokens)
             \<in> measure (\<lambda>(pathStr, remaining, tokens). length remaining)"
    by simp
qed

declare parseSegments.simps [simp del]

text \<open>
  \<^verbatim>\<open>parsePath\<close>. The argument is a string, so of the first test only \<^verbatim>\<open>!pathStr\<close>
  (the empty string) is left.
\<close>

definition parsePath :: "string \<Rightarrow> error + token list" where
  "parsePath pathStr =
     (if pathStr = [] then Inr [ROOT]
      else if trim pathStr = ''$'' \<or> trim pathStr = [] then Inr [ROOT]
      else
        (case (if startsWith (trim pathStr) ''$''
               then parseSegments pathStr
                      (consumeDotAfterBracket (drop 1 (trim pathStr))) [ROOT]
               else parseSegments pathStr (trim pathStr) []) of
           Inl e \<Rightarrow> Inl e
         | Inr tokens \<Rightarrow> Inr (if tokens = [] then [ROOT] else tokens)))"



subsection \<open>Matches\<close>

text \<open>A concrete path is an array of field names and array indices.\<close>

datatype seg = Key string | Idx nat

record match =
  m_value :: jsval
  m_path :: "seg list"

subsection \<open>evaluatePath\<close>

text \<open>The body of the \<^verbatim>\<open>switch\<close> for one token and one current match.\<close>

fun applyToken :: "token \<Rightarrow> match \<Rightarrow> match list" where
  "applyToken ROOT m = [m]"
| "applyToken (FIELD k) m =
     (if isNonArrayObject (m_value m)
      then (case lookupIn (m_value m) k of
              Some v \<Rightarrow> [\<lparr>m_value = v, m_path = m_path m @ [Key k]\<rparr>]
            | None \<Rightarrow> [])
      else [])"
| "applyToken ALL_ITEMS m =
     (case m_value m of
        JArr a xs \<Rightarrow>
          map (\<lambda>(idx, item). \<lparr>m_value = item, m_path = m_path m @ [Idx idx]\<rparr>)
              (zip [0..<length xs] xs)
      | _ \<Rightarrow> [])"
| "applyToken (INDEX n) m =
     (case m_value m of
        JArr a xs \<Rightarrow>
          (if n < length xs
           then [\<lparr>m_value = xs ! n, m_path = m_path m @ [Idx n]\<rparr>]
           else [])
      | _ \<Rightarrow> [])"

text \<open>One round of the outer loop: \<^verbatim>\<open>nextResults\<close> from \<^verbatim>\<open>results\<close>.\<close>

definition stepToken :: "match list \<Rightarrow> token \<Rightarrow> match list" where
  "stepToken results tok = concat (map (applyToken tok) results)"

text \<open>\<^verbatim>\<open>evaluatePath\<close> on an already parsed path.\<close>

definition evaluateAst :: "jsval \<Rightarrow> token list \<Rightarrow> match list" where
  "evaluateAst data ast =
     (if ast = [] then [\<lparr>m_value = data, m_path = []\<rparr>]
      else foldl stepToken [\<lparr>m_value = data, m_path = []\<rparr>] ast)"

text \<open>\<^verbatim>\<open>getPathDepth\<close> on an already parsed path.\<close>

fun tokenDepth :: "token \<Rightarrow> nat" where
  "tokenDepth ROOT = 0"
| "tokenDepth (FIELD k) = 1"
| "tokenDepth ALL_ITEMS = 1"
| "tokenDepth (INDEX n) = 1"

definition getPathDepthAst :: "token list \<Rightarrow> nat" where
  "getPathDepthAst ast = foldl (\<lambda>depth tok. depth + tokenDepth tok) 0 ast"

subsection \<open>Paths given as strings\<close>

text \<open>
  \<^verbatim>\<open>typeof pathOrAst === 'string' ? parsePath(pathOrAst) : pathOrAst\<close>: the argument of
  the exported functions is a path string or a parsed path.
\<close>

datatype pathOrAst = PathString string | PathAst "token list"

definition toAst :: "pathOrAst \<Rightarrow> error + token list" where
  "toAst pathOrAst =
     (case pathOrAst of PathString s \<Rightarrow> parsePath s | PathAst ast \<Rightarrow> Inr ast)"

definition evaluatePath :: "jsval \<Rightarrow> pathOrAst \<Rightarrow> error + match list" where
  "evaluatePath data pathOrAst =
     (case toAst pathOrAst of
        Inl e \<Rightarrow> Inl e
      | Inr ast \<Rightarrow> Inr (evaluateAst data ast))"

definition evaluatePathValues :: "jsval \<Rightarrow> pathOrAst \<Rightarrow> error + jsval list" where
  "evaluatePathValues data pathOrAst =
     (case toAst pathOrAst of
        Inl e \<Rightarrow> Inl e
      | Inr ast \<Rightarrow>
          (case evaluatePath data (PathAst ast) of
             Inl e \<Rightarrow> Inl e
           | Inr results \<Rightarrow> Inr (map m_value results)))"

definition evaluatePathSingle :: "jsval \<Rightarrow> pathOrAst \<Rightarrow> error + jsval" where
  "evaluatePathSingle data pathOrAst =
     (case evaluatePathValues data pathOrAst of
        Inl e \<Rightarrow> Inl e
      | Inr vals \<Rightarrow> Inr (case vals of [] \<Rightarrow> JUndefined | v # vs \<Rightarrow> v))"

definition getPathDepth :: "pathOrAst \<Rightarrow> error + nat" where
  "getPathDepth pathOrAst =
     (case toAst pathOrAst of
        Inl e \<Rightarrow> Inl e
      | Inr ast \<Rightarrow> Inr (getPathDepthAst ast))"

section \<open>Extraction engine\<close>

subsection \<open>Inputs and results\<close>

text \<open>
  An extraction rule of a call. A field that is absent is the empty string: the code
  reads these fields only through \<^verbatim>\<open>&&\<close> and \<^verbatim>\<open>||\<close>, which treat both alike.
\<close>

record extraction =
  ext_entity :: string
  ext_path :: string

record entityConfig =
  ec_label :: string
  ec_pk :: string
  ec_displayField :: string
  ec_color :: string

record relation =
  rel_from :: string
  rel_to :: string
  rel_toFk :: string
  rel_fromPk :: string

record entity =
  e_id :: string
  e_type :: string
  e_pk :: jsval
  e_data :: jsval
  e_label :: string
  e_color :: string
  e_callId :: string
  e_extractPath :: string

record edge =
  edge_id :: string
  edge_source :: string
  edge_target :: string
  edge_type :: string

text \<open>\<^verbatim>\<open>a || b\<close> on strings.\<close>

definition orElse :: "string \<Rightarrow> string \<Rightarrow> string" where
  "orElse a b = (if a = [] then b else a)"

text \<open>
  \<^verbatim>\<open>entityConfigMap[entityType]\<close>. The map is an object literal filled by entity id,
  so a name of \<^verbatim>\<open>Object.prototype\<close> that is no entity id still reads a (truthy)
  inherited member, none of whose fields \<^verbatim>\<open>pk\<close>, \<^verbatim>\<open>displayField\<close>, \<^verbatim>\<open>color\<close>,
  \<^verbatim>\<open>label\<close> is defined.
\<close>

definition inheritedConfig :: entityConfig where
  "inheritedConfig = \<lparr>ec_label = [], ec_pk = [], ec_displayField = [], ec_color = []\<rparr>"

definition lookupConfig :: "(string \<times> entityConfig) list \<Rightarrow> string \<Rightarrow> entityConfig option" where
  "lookupConfig entityConfigMap entityType =
     (case map_of entityConfigMap entityType of
        Some c \<Rightarrow> Some c
      | None \<Rightarrow>
          (if entityType \<in> set objectPrototypeKeys then Some inheritedConfig else None))"

subsection \<open>Maps with insertion order\<close>

text \<open>
  A \<^verbatim>\<open>Map\<close> lists its entries in the order of their first insertion;
  \<^verbatim>\<open>set\<close> on a key that is present replaces the value in place. The objects that the
  merge engine fills by assignment are kept the same way; the language lists the keys
  of an object that are array indices first, so for such keys the order of the entries
  of the model is not the order of enumeration.
\<close>

fun mapSet :: "'k \<Rightarrow> 'v \<Rightarrow> ('k \<times> 'v) list \<Rightarrow> ('k \<times> 'v) list" where
  "mapSet k v [] = [(k, v)]"
| "mapSet k v ((k', v') # rest) =
     (if k' = k then (k, v) # rest else (k', v') # mapSet k v rest)"

definition mapGet :: "('k \<times> 'v) list \<Rightarrow> 'k \<Rightarrow> 'v option" where
  "mapGet m k = map_of m k"

subsection \<open>extractFromCall\<close>

text \<open>\<^verbatim>\<open>extractPath.join('.')\<close>\<close>

fun segString :: "seg \<Rightarrow> string" where
  "segString (Key k) = k"
| "segString (Idx n) = decimal n"

definition pathKeyOf :: "seg list \<Rightarrow> string" where
  "pathKeyOf extractPath = joinWith ''.'' (map segString extractPath)"

record pathEntry =
  pe_entityId :: string
  pe_pathKey :: string

text \<open>
  The sorted copy of the rules. The comparator parses both paths, so with two or more
  rules a malformed path makes the sort raise; with fewer the comparator is never
  called. Which of several malformed paths is reported depends on the order in which
  the engine compares; the model reports the first in the order of the rules. The
  sort is stable.
\<close>

definition sortByDepth :: "extraction list \<Rightarrow> error + extraction list" where
  "sortByDepth exts =
     (if length exts \<le> 1 then Inr exts
      else
        (case sequenceE (map (\<lambda>ext. getPathDepth (PathString (ext_path ext))) exts) of
           Inl e \<Rightarrow> Inl e
         | Inr depths \<Rightarrow> Inr (map snd (sort_key fst (zip depths exts)))))"

text \<open>
  \<^verbatim>\<open>!parentEntityId\<close>, and the three steps of
  \<^verbatim>\<open>extractedByPath.get(parentEntityId.split('|')[1])?.length\<close>: the second piece of the
  id if there is one, the entry stored under it if there is one, and the \<^verbatim>\<open>length\<close>
  of that entry. An entry is an object \<^verbatim>\<open>{ entityId, pathKey }\<close>, which has no
  \<^verbatim>\<open>length\<close>, so the last step is undefined also when an entry is found; a comparison
  with undefined is false.
\<close>

definition notSet :: "string option \<Rightarrow> bool" where
  "notSet parentEntityId = (case parentEntityId of None \<Rightarrow> True | Some s \<Rightarrow> s = [])"

definition secondPiece :: "string \<Rightarrow> string option" where
  "secondPiece s = (case splitOn (CHR ''|'') s of a # b # rest \<Rightarrow> Some b | _ \<Rightarrow> None)"

definition entryOf :: "(string \<times> pathEntry) list \<Rightarrow> string option \<Rightarrow> pathEntry option" where
  "entryOf extractedByPath key =
     (case key of None \<Rightarrow> None | Some k \<Rightarrow> mapGet extractedByPath k)"

definition entryLength :: "pathEntry option \<Rightarrow> nat option" where
  "entryLength found = (case found of None \<Rightarrow> None | Some entry \<Rightarrow> None)"

definition greaterThan :: "nat \<Rightarrow> nat option \<Rightarrow> bool" where
  "greaterThan n other = (case other of None \<Rightarrow> False | Some k \<Rightarrow> k < n)"

text \<open>The body of the loop over \<^verbatim>\<open>extractedByPath\<close> that looks for the parent.\<close>

definition parentStep ::
  "(string \<times> pathEntry) list \<Rightarrow> string \<Rightarrow> string option \<Rightarrow> string \<times> pathEntry \<Rightarrow> string option" where
  "parentStep extractedByPath pathKey parentEntityId existing =
     (if startsWith pathKey (fst existing @ ''.'') \<or> startsWith pathKey (fst existing @ ''['')
      then
        (if notSet parentEntityId
            \<or> greaterThan (length (fst existing))
                 (entryLength (entryOf extractedByPath
                    (secondPiece (the parentEntityId))))
         then Some (pe_entityId (snd existing))
         else parentEntityId)
      else parentEntityId)"

definition findParent :: "(string \<times> pathEntry) list \<Rightarrow> string \<Rightarrow> string option" where
  "findParent extractedByPath pathKey =
     foldl (parentStep extractedByPath pathKey) None extractedByPath"

record extractState =
  st_extractedByPath :: "(string \<times> pathEntry) list"
  st_entities :: "entity list"
  st_intraEdges :: "edge list"

text \<open>The body of the loop over the results of one rule.\<close>

definition extractResult ::
  "string \<Rightarrow> string \<Rightarrow> entityConfig \<Rightarrow> extractState \<Rightarrow> match \<Rightarrow> error + extractState" where
  "extractResult callId entityType entityConfig st result =
     (if \<not> isNonArrayObject (m_value result) then Inr st
      else
        (case evaluatePathSingle (m_value result)
                (PathString (orElse (ec_pk entityConfig) ''id'')) of
           Inl e \<Rightarrow> Inl e
         | Inr pkValue \<Rightarrow>
             (if nullish pkValue then Inr st
              else
                (case jsString pkValue of
                   Inl e \<Rightarrow> Inl e
                 | Inr pkString \<Rightarrow>
                     (case evaluatePathSingle (m_value result)
                             (PathString (orElse (ec_displayField entityConfig) ''id'')) of
                        Inl e \<Rightarrow> Inl e
                      | Inr displayValue \<Rightarrow>
                          (case (if displayValue \<noteq> JUndefined then jsString displayValue
                                 else jsString pkValue) of
                             Inl e \<Rightarrow> Inl e
                           | Inr label \<Rightarrow>
                               (let entityId = entityType @ ''-'' @ pkString;
                                    pathKey = pathKeyOf (m_path result);
                                    parentEntityId =
                                      findParent (st_extractedByPath st) pathKey
                                in Inr \<lparr>
                                  st_extractedByPath =
                                    mapSet pathKey
                                      \<lparr>pe_entityId = entityId, pe_pathKey = pathKey\<rparr>
                                      (st_extractedByPath st),
                                  st_entities = st_entities st @
                                    [\<lparr>e_id = entityId, e_type = entityType,
                                      e_pk = pkValue, e_data = m_value result,
                                      e_label = label,
                                      e_color = orElse (ec_color entityConfig) ''#4F46E5'',
                                      e_callId = callId, e_extractPath = pathKey\<rparr>],
                                  st_intraEdges = st_intraEdges st @
                                    (if notSet parentEntityId then []
                                     else [\<lparr>edge_id = ''intra-'' @ the parentEntityId
                                                      @ ''-'' @ entityId,
                                            edge_source = the parentEntityId,
                                            edge_target = entityId,
                                            edge_type = ''intra''\<rparr>])\<rparr>)))))))"

definition extractResults ::
  "string \<Rightarrow> string \<Rightarrow> entityConfig \<Rightarrow> extractState \<Rightarrow> match list \<Rightarrow> error + extractState" where
  "extractResults callId entityType entityConfig st results =
     foldE (extractResult callId entityType entityConfig) st results"

text \<open>The body of the loop over the sorted rules.\<close>

definition extractRule ::
  "string \<Rightarrow> jsval \<Rightarrow> (string \<times> entityConfig) list \<Rightarrow> extractState \<Rightarrow> extraction
     \<Rightarrow> error + extractState" where
  "extractRule callId json entityConfigMap st ext =
     (case lookupConfig entityConfigMap (ext_entity ext) of
        None \<Rightarrow> Inr st
      | Some entityConfig \<Rightarrow>
          (case evaluatePath json (PathString (ext_path ext)) of
             Inl e \<Rightarrow> Inl e
           | Inr results \<Rightarrow>
               extractResults callId (ext_entity ext) entityConfig st results))"

definition extractRules ::
  "string \<Rightarrow> jsval \<Rightarrow> (string \<times> entityConfig) list \<Rightarrow> extractState \<Rightarrow> extraction list
     \<Rightarrow> error + extractState" where
  "extractRules callId json entityConfigMap st exts =
     foldE (extractRule callId json entityConfigMap) st exts"

definition extractFromCall ::
  "string \<Rightarrow> jsval \<Rightarrow> extraction list \<Rightarrow> (string \<times> entityConfig) list
     \<Rightarrow> error + (entity list \<times> edge list)" where
  "extractFromCall callId json extractions entityConfigMap =
     (case sortByDepth
             (filter (\<lambda>ext. ext_entity ext \<noteq> [] \<and> ext_path ext \<noteq> []) extractions) of
        Inl e \<Rightarrow> Inl e
      | Inr sortedExtractions \<Rightarrow>
          (case extractRules callId json entityConfigMap
                  \<lparr>st_extractedByPath = [], st_entities = [], st_intraEdges = []\<rparr>
                  sortedExtractions of
             Inl e \<Rightarrow> Inl e
           | Inr st \<Rightarrow> Inr (st_entities st, st_intraEdges st)))"

subsection \<open>The parent search of extractWithContext\<close>

text \<open>
  The loop of \<^verbatim>\<open>extractWithContext\<close> that looks for the parent, over a map from path
  keys to \<^verbatim>\<open>{ entity, pk }\<close>. It tests a plain string prefix. The lookup key
  \<^verbatim>\<open>`${entity}:${pk}`\<close> converts the primary key of the current parent to a string and
  is built only when a parent is set already; the entry found, if any, has no
  \<^verbatim>\<open>length\<close> either.
\<close>

record contextEntry =
  ce_entity :: string
  ce_pk :: jsval

definition contextEntryLength :: "contextEntry option \<Rightarrow> nat option" where
  "contextEntryLength found = (case found of None \<Rightarrow> None | Some entry \<Rightarrow> None)"

definition contextParentStep ::
  "(string \<times> contextEntry) list \<Rightarrow> string \<Rightarrow> contextEntry option \<Rightarrow> string \<times> contextEntry
     \<Rightarrow> error + contextEntry option" where
  "contextParentStep extractedByPath pathKey parent existing =
     (if startsWith pathKey (fst existing) \<and> pathKey \<noteq> fst existing then
        (case parent of
           None \<Rightarrow> Inr (Some (snd existing))
         | Some p \<Rightarrow>
             (if ce_entity p = [] then Inr (Some (snd existing))
              else
                (case jsString (ce_pk p) of
                   Inl e \<Rightarrow> Inl e
                 | Inr pkString \<Rightarrow>
                     (if greaterThan (length (fst existing))
                           (contextEntryLength
                              (mapGet extractedByPath (ce_entity p @ '':'' @ pkString)))
                      then Inr (Some (snd existing))
                      else Inr parent))))
      else Inr parent)"

definition findParentWithContext ::
  "(string \<times> contextEntry) list \<Rightarrow> string \<Rightarrow> error + contextEntry option" where
  "findParentWithContext extractedByPath pathKey =
     foldE (contextParentStep extractedByPath pathKey) None extractedByPath"

subsection \<open>calculateInterEdges\<close>

text \<open>
  The index \<^verbatim>\<open>Map<entityType, Map<pkValue, entityId>>\<close> and the loop that fills it.
\<close>

type_synonym entityIndex = "(string \<times> (string \<times> string) list) list"

definition indexEntity :: "entityIndex \<Rightarrow> entity \<Rightarrow> error + entityIndex" where
  "indexEntity entityIndex ent =
     (case jsString (e_pk ent) of
        Inl e \<Rightarrow> Inl e
      | Inr pkString \<Rightarrow>
          Inr (mapSet (e_type ent)
                 (mapSet pkString (e_id ent)
                    (case mapGet entityIndex (e_type ent) of
                       None \<Rightarrow> []
                     | Some byPk \<Rightarrow> byPk))
                 entityIndex))"

record edgeState =
  es_edges :: "edge list"
  es_edgeSet :: "string list"

text \<open>The body of the loop over the entities of the relation's \<^verbatim>\<open>to\<close> type.\<close>

definition relationEdge ::
  "(string \<times> string) list \<Rightarrow> string \<Rightarrow> edgeState \<Rightarrow> entity \<Rightarrow> error + edgeState" where
  "relationEdge fromEntities toFk st toEntity =
     (case evaluatePathSingle (e_data toEntity) (PathString toFk) of
        Inl e \<Rightarrow> Inl e
      | Inr fkValue \<Rightarrow>
          (if nullish fkValue then Inr st
           else
             (case jsString fkValue of
                Inl e \<Rightarrow> Inl e
              | Inr fkString \<Rightarrow>
                  (case mapGet fromEntities fkString of
                     None \<Rightarrow> Inr st
                   | Some fromEntityId \<Rightarrow>
                       (if fromEntityId = [] then Inr st
                        else if ''inter-'' @ fromEntityId @ ''-'' @ e_id toEntity
                                  \<in> set (es_edgeSet st)
                        then Inr st
                        else Inr \<lparr>
                          es_edges = es_edges st @
                            [\<lparr>edge_id = ''inter-'' @ fromEntityId @ ''-'' @ e_id toEntity,
                              edge_source = fromEntityId,
                              edge_target = e_id toEntity,
                              edge_type = ''inter''\<rparr>],
                          es_edgeSet = es_edgeSet st @
                            [''inter-'' @ fromEntityId @ ''-'' @ e_id toEntity]\<rparr>)))))"

text \<open>The body of the loop over the relations.\<close>

definition relationStep ::
  "entity list \<Rightarrow> entityIndex \<Rightarrow> edgeState \<Rightarrow> relation \<Rightarrow> error + edgeState" where
  "relationStep entities entityIndex st rel =
     (if rel_toFk rel = [] then Inr st
      else
        (case mapGet entityIndex (rel_from rel) of
           None \<Rightarrow> Inr st
         | Some fromEntities \<Rightarrow>
             (if filter (\<lambda>e. e_type e = rel_to rel) entities = [] then Inr st
              else foldE (relationEdge fromEntities (rel_toFk rel)) st
                     (filter (\<lambda>e. e_type e = rel_to rel) entities))))"

definition calculateInterEdges ::
  "entity list \<Rightarrow> relation list \<Rightarrow> (string \<times> entityConfig) list \<Rightarrow> error + edge list" where
  "calculateInterEdges entities relations entityConfigMap =
     (case foldE indexEntity [] entities of
        Inl e \<Rightarrow> Inl e
      | Inr entityIndex \<Rightarrow>
          (case foldE (relationStep entities entityIndex)
                  \<lparr>es_edges = [], es_edgeSet = []\<rparr> relations of
             Inl e \<Rightarrow> Inl e
           | Inr st \<Rightarrow> Inr (es_edges st)))"

section \<open>Identity merge engine\<close>

subsection \<open>getNestedValue and resolvePkValue\<close>

text \<open>
  \<^verbatim>\<open>current[part]\<close> on a value that is neither null nor undefined. On an object other
  than an array it is the own entry, else the inherited member, else undefined. On an
  array, a string, a number, a boolean or a function the read goes through the indices
  and the built-in prototype of the value; that part of the language is the parameter
  \<open>builtin\<close>.
\<close>

definition getProperty :: "(jsval \<Rightarrow> string \<Rightarrow> jsval) \<Rightarrow> jsval \<Rightarrow> string \<Rightarrow> jsval" where
  "getProperty builtin v k =
     (if isNonArrayObject v
      then (case lookupIn v k of Some x \<Rightarrow> x | None \<Rightarrow> JUndefined)
      else builtin v k)"

text \<open>The loop of \<^verbatim>\<open>getNestedValue\<close> over the parts of the path.\<close>

fun followParts :: "(jsval \<Rightarrow> string \<Rightarrow> jsval) \<Rightarrow> jsval \<Rightarrow> string list \<Rightarrow> jsval" where
  "followParts builtin current [] = current"
| "followParts builtin current (part # parts) =
     (if nullish current then JUndefined
      else followParts builtin (getProperty builtin current part) parts)"

definition getNestedValue :: "(jsval \<Rightarrow> string \<Rightarrow> jsval) \<Rightarrow> jsval \<Rightarrow> string \<Rightarrow> jsval" where
  "getNestedValue builtin obj path =
     (if falsy obj \<or> path = [] then JUndefined
      else followParts builtin obj (splitOn (CHR ''.'') path))"

text \<open>
  \<^verbatim>\<open>resolvePkValue\<close>. \<^verbatim>\<open>values.join('|')\<close> converts every value to a string, which
  can raise.
\<close>

definition resolvePkValue ::
  "(jsval \<Rightarrow> string \<Rightarrow> jsval) \<Rightarrow> jsval \<Rightarrow> string \<Rightarrow> error + jsval" where
  "resolvePkValue builtin obj pkField =
     (if falsy obj \<or> pkField = [] then Inr JUndefined
      else if CHR ''+'' \<notin> set pkField then Inr (getNestedValue builtin obj pkField)
      else if list_ex nullish
                (map (\<lambda>p. getNestedValue builtin obj (trim p)) (splitOn (CHR ''+'') pkField))
      then Inr JUndefined
      else
        (case sequenceE
                (map (\<lambda>v. jsString v)
                   (map (\<lambda>p. getNestedValue builtin obj (trim p))
                      (splitOn (CHR ''+'') pkField))) of
           Inl e \<Rightarrow> Inl e
         | Inr strs \<Rightarrow> Inr (JStr (joinWith ''|'' strs))))"

subsection \<open>deepMergeWithTracking\<close>

record sourceInfo =
  si_callId :: string
  si_callName :: string
  si_sourceIndex :: nat

record conflictRecord =
  cf_callId :: string
  cf_callName :: string
  cf_oldValue :: jsval
  cf_newValue :: jsval
  cf_sourceIndex :: nat

record sourceRecord =
  ps_callId :: string
  ps_callName :: string
  ps_value :: jsval
  ps_sourceIndex :: nat

text \<open>
  \<^verbatim>\<open>a === b\<close>. Arrays are compared by address. An object of the accumulator is never
  an object of a source.
\<close>

fun strictEq :: "jsval \<Rightarrow> jsval \<Rightarrow> bool" where
  "strictEq (JArr a xs) (JArr b ys) = (a = b)"
| "strictEq (JObj kvs) (JObj kvs') = False"
| "strictEq v w = (v = w)"

text \<open>
  \<^verbatim>\<open>target[key]\<close> on an accumulator, an object made by \<^verbatim>\<open>{}\<close>: the own entry, else
  the inherited member, else undefined.
\<close>

definition readProp :: "(string \<times> jsval) list \<Rightarrow> string \<Rightarrow> jsval" where
  "readProp target key =
     (case lookupIn (JObj target) key of Some v \<Rightarrow> v | None \<Rightarrow> JUndefined)"

text \<open>
  \<^verbatim>\<open>if (!tracked[fullPath]) tracked[fullPath] = []; tracked[fullPath].push(r)\<close> on
  \<^verbatim>\<open>conflicts\<close> and on \<^verbatim>\<open>propertySources\<close>, both made by \<^verbatim>\<open>{}\<close>. Under a name of
  \<^verbatim>\<open>Object.prototype\<close> the read finds the inherited member, which is truthy and has no
  \<^verbatim>\<open>push\<close>: the call raises a \<^verbatim>\<open>TypeError\<close>.
\<close>

definition pushTracked ::
  "string \<Rightarrow> 'r \<Rightarrow> (string \<times> 'r list) list \<Rightarrow> error + (string \<times> 'r list) list" where
  "pushTracked fullPath r tracked =
     (case map_of tracked fullPath of
        Some rs \<Rightarrow> Inr (mapSet fullPath (rs @ [r]) tracked)
      | None \<Rightarrow>
          (if fullPath \<in> set objectPrototypeKeys then Inl TypeError
           else Inr (tracked @ [(fullPath, [r])])))"

text \<open>
  \<^verbatim>\<open>target[key] = value\<close> for a leaf. Under the key \<^verbatim>\<open>__proto__\<close> the assignment
  goes to the prototype of the accumulator: a boolean, a number or a string leaves it
  alone, anything else replaces it, and there the model stops with \<open>ProtoWrite\<close>.
\<close>

definition writeLeaf ::
  "string \<Rightarrow> string \<Rightarrow> jsval \<Rightarrow> (string \<times> jsval) list \<Rightarrow> error + (string \<times> jsval) list" where
  "writeLeaf fullPath key v target =
     (if key = ''__proto__''
      then (case v of
              JBool b \<Rightarrow> Inr target
            | JNum n \<Rightarrow> Inr target
            | JStr s \<Rightarrow> Inr target
            | JUndefined \<Rightarrow> Inr target
            | _ \<Rightarrow> Inl (ProtoWrite fullPath))
      else Inr (mapSet key v target))"

text \<open>\<^verbatim>\<open>Object.entries(source)\<close>\<close>

fun entriesOf :: "jsval \<Rightarrow> (string \<times> jsval) list" where
  "entriesOf (JObj kvs) = kvs"
| "entriesOf _ = []"

text \<open>
  The object that the recursive call merges into, after
  \<^verbatim>\<open>if (!target[key] || typeof target[key] !== 'object' || Array.isArray(target[key])) target[key] = {}\<close>.
\<close>

definition subTarget :: "(string \<times> jsval) list \<Rightarrow> string \<Rightarrow> (string \<times> jsval) list" where
  "subTarget target key = (case readProp target key of JObj t \<Rightarrow> t | _ \<Rightarrow> [])"

text \<open>
  The loop over the entries of a source. A value that is an object other than an
  array is merged recursively, any other value is a leaf. Under the key
  \<^verbatim>\<open>__proto__\<close> the object read from the accumulator is \<^verbatim>\<open>Object.prototype\<close> itself,
  and the recursive call merges into it: with no entry to merge nothing happens; with
  an entry the code writes a member of \<^verbatim>\<open>Object.prototype\<close> (or raises at its
  \<^verbatim>\<open>__proto__\<close> member), and there the model stops with \<open>ProtoWrite\<close>.
\<close>

function deepMergeEntries ::
  "(string \<times> jsval) list \<Rightarrow> (string \<times> jsval) list \<Rightarrow> sourceInfo
     \<Rightarrow> (string \<times> conflictRecord list) list \<Rightarrow> (string \<times> sourceRecord list) list \<Rightarrow> string
     \<Rightarrow> error + ((string \<times> jsval) list \<times> (string \<times> conflictRecord list) list
                 \<times> (string \<times> sourceRecord list) list)" where
  "deepMergeEntries target [] info conflicts propertySources path =
     Inr (target, conflicts, propertySources)"
| "deepMergeEntries target ((key, v) # rest) info conflicts propertySources path =
     (if isNonArrayObject v then
        (if key = ''__proto__'' then
           (if entriesOf v = []
            then deepMergeEntries target rest info conflicts propertySources path
            else Inl (ProtoWrite (if path = [] then key else path @ ''.'' @ key)))
         else
           (case deepMergeEntries (subTarget target key) (entriesOf v) info conflicts
                   propertySources (if path = [] then key else path @ ''.'' @ key) of
              Inl e \<Rightarrow> Inl e
            | Inr (sub, conflicts', propertySources') \<Rightarrow>
                deepMergeEntries (mapSet key (JObj sub) target) rest info conflicts'
                  propertySources' path))
      else
        (case (if readProp target key \<noteq> JUndefined \<and> \<not> strictEq (readProp target key) v
               then pushTracked (if path = [] then key else path @ ''.'' @ key)
                      \<lparr>cf_callId = si_callId info, cf_callName = si_callName info,
                        cf_oldValue = readProp target key, cf_newValue = v,
                        cf_sourceIndex = si_sourceIndex info\<rparr>
                      conflicts
               else Inr conflicts) of
           Inl e \<Rightarrow> Inl e
         | Inr conflicts' \<Rightarrow>
             (case pushTracked (if path = [] then key else path @ ''.'' @ key)
                     \<lparr>ps_callId = si_callId info, ps_callName = si_callName info,
                       ps_value = v, ps_sourceIndex = si_sourceIndex info\<rparr>
                     propertySources of
                Inl e \<Rightarrow> Inl e
              | Inr propertySources' \<Rightarrow>
                  (case writeLeaf (if path = [] then key else path @ ''.'' @ key) key v target of
                     Inl e \<Rightarrow> Inl e
                   | Inr target' \<Rightarrow>
                       deepMergeEntries target' rest info conflicts' propertySources' path))))"
  by pat_completeness auto

termination
proof (relation "measure (\<lambda>(target, source, info, conflicts, propertySources, path).
                    size (JObj source))")
  show "wf (measure (\<lambda>(target, source, info, conflicts, propertySources, path).
                    size (JObj source)))"
    by simp
qed (auto, case_tac v, auto)

declare deepMergeEntries.simps [simp del]

definition deepMergeWithTracking ::
  "(string \<times> jsval) list \<Rightarrow> jsval \<Rightarrow> sourceInfo
     \<Rightarrow> (string \<times> conflictRecord list) list \<Rightarrow> (string \<times> sourceRecord list) list
     \<Rightarrow> error + ((string \<times> jsval) list \<times> (string \<times> conflictRecord list) list
                 \<times> (string \<times> sourceRecord list) list)" where
  "deepMergeWithTracking target source info conflicts propertySources =
     deepMergeEntries target (entriesOf source) info conflicts propertySources []"

subsection \<open>computeNodeMappings\<close>

text \<open>A call: a pasted document with its extraction rules. Without a document
  \<^verbatim>\<open>parsedJson\<close> is null; without rules the list is empty.\<close>

record call =
  c_id :: string
  c_name :: string
  c_parsedJson :: jsval
  c_extractions :: "extraction list"

record groupItem =
  gi_nodeId :: string
  gi_data :: jsval
  gi_entityConfig :: entityConfig
  gi_entityType :: string

record mergeSource =
  ms_callId :: string
  ms_callName :: string
  ms_nodeId :: string
  ms_data :: jsval

text \<open>What a merged mapping has beyond a standalone one.\<close>

record mergedInfo =
  mi_sources :: "mergeSource list"
  mi_propertySources :: "(string \<times> sourceRecord list) list"
  mi_conflicts :: "(string \<times> conflictRecord list) list"
  mi_sourceCount :: nat
  mi_hasConflicts :: bool

record mapping =
  mp_entityType :: string
  mp_entityLabel :: string
  mp_color :: string
  mp_data :: jsval
  mp_merged :: "mergedInfo option"

text \<open>\<^verbatim>\<open>a || b\<close> on values, and \<^verbatim>\<open>v && typeof v === 'object'\<close>.\<close>

definition jsOr :: "jsval \<Rightarrow> jsval \<Rightarrow> jsval" where
  "jsOr a b = (if falsy a then b else a)"

fun isObjectValue :: "jsval \<Rightarrow> bool" where
  "isObjectValue (JObj kvs) = True"
| "isObjectValue (JArr a xs) = True"
| "isObjectValue JObjectPrototype = True"
| "isObjectValue _ = False"

text \<open>\<^verbatim>\<open>`${call.id}:${['$', ...pathParts].join('.')}`\<close>\<close>

definition nodeIdOf :: "string \<Rightarrow> seg list \<Rightarrow> string" where
  "nodeIdOf callId pathParts = callId @ '':'' @ joinWith ''.'' (''$'' # map segString pathParts)"

text \<open>
  \<^verbatim>\<open>getNestedValue(data, displayField) || data.id || entityType\<close>, the value shown for
  an entity.
\<close>

definition displayValueOf ::
  "(jsval \<Rightarrow> string \<Rightarrow> jsval) \<Rightarrow> jsval \<Rightarrow> entityConfig \<Rightarrow> string \<Rightarrow> jsval" where
  "displayValueOf builtin data entityConfig entityType =
     jsOr (getNestedValue builtin data (orElse (ec_displayField entityConfig) ''id''))
       (jsOr (getProperty builtin data ''id'') (JStr entityType))"

record firstPass =
  fp_mappings :: "(string \<times> mapping) list"
  fp_entityGroups :: "(string \<times> groupItem list) list"

text \<open>The body of the loop over the results of one rule in the first pass.\<close>

definition collectResult ::
  "(jsval \<Rightarrow> string \<Rightarrow> jsval) \<Rightarrow> string \<Rightarrow> string \<Rightarrow> entityConfig \<Rightarrow> firstPass \<Rightarrow> match
     \<Rightarrow> error + firstPass" where
  "collectResult builtin callId entityType entityConfig st result =
     (if falsy (m_value result) \<or> \<not> isObjectValue (m_value result) then Inr st
      else
        (case m_value result of
           JArr a items \<Rightarrow>
             Inr (st\<lparr>fp_mappings :=
               mapSet (nodeIdOf callId (m_path result))
                 \<lparr>mp_entityType = entityType,
                   mp_entityLabel = orElse (ec_label entityConfig) entityType
                                    @ '' ('' @ decimal (length items) @ '')'',
                   mp_color = orElse (ec_color entityConfig) ''#4F46E5'',
                   mp_data = m_value result, mp_merged = None\<rparr>
                 (fp_mappings st)\<rparr>)
         | _ \<Rightarrow>
             (case resolvePkValue builtin (m_value result)
                     (orElse (ec_pk entityConfig) ''id'') of
                Inl e \<Rightarrow> Inl e
              | Inr pkValue \<Rightarrow>
                  (if \<not> nullish pkValue then
                     (case jsString pkValue of
                        Inl e \<Rightarrow> Inl e
                      | Inr pkString \<Rightarrow>
                          Inr (st\<lparr>fp_entityGroups :=
                            mapSet (entityType @ '':'' @ pkString)
                              ((case mapGet (fp_entityGroups st)
                                       (entityType @ '':'' @ pkString) of
                                  None \<Rightarrow> []
                                | Some items \<Rightarrow> items)
                               @ [\<lparr>gi_nodeId = nodeIdOf callId (m_path result),
                                   gi_data = m_value result,
                                   gi_entityConfig = entityConfig,
                                   gi_entityType = entityType\<rparr>])
                              (fp_entityGroups st)\<rparr>))
                   else
                     (case jsString (displayValueOf builtin (m_value result)
                                       entityConfig entityType) of
                        Inl e \<Rightarrow> Inl e
                      | Inr label \<Rightarrow>
                          Inr (st\<lparr>fp_mappings :=
                            mapSet (nodeIdOf callId (m_path result))
                              \<lparr>mp_entityType = entityType, mp_entityLabel = label,
                                mp_color = orElse (ec_color entityConfig) ''#4F46E5'',
                                mp_data = m_value result, mp_merged = None\<rparr>
                              (fp_mappings st)\<rparr>))))))"

text \<open>The bodies of the loops over the rules of a call and over the calls.\<close>

definition collectRule ::
  "(jsval \<Rightarrow> string \<Rightarrow> jsval) \<Rightarrow> (string \<times> entityConfig) list \<Rightarrow> call \<Rightarrow> firstPass \<Rightarrow> extraction
     \<Rightarrow> error + firstPass" where
  "collectRule builtin entityMap c st ext =
     (if ext_entity ext = [] \<or> ext_path ext = [] then Inr st
      else
        (case lookupConfig entityMap (ext_entity ext) of
           None \<Rightarrow> Inr st
         | Some entityConfig \<Rightarrow>
             (case evaluatePath (c_parsedJson c) (PathString (ext_path ext)) of
                Inl e \<Rightarrow> Inl e
              | Inr results \<Rightarrow>
                  foldE (collectResult builtin (c_id c) (ext_entity ext) entityConfig)
                    st results)))"

definition collectCall ::
  "(jsval \<Rightarrow> string \<Rightarrow> jsval) \<Rightarrow> (string \<times> entityConfig) list \<Rightarrow> firstPass \<Rightarrow> call
     \<Rightarrow> error + firstPass" where
  "collectCall builtin entityMap st c =
     (if falsy (c_parsedJson c) then Inr st
      else foldE (collectRule builtin entityMap c) st (c_extractions c))"

text \<open>The second pass: the loop over the instances of one group.\<close>

record groupMerge =
  gm_mergedData :: "(string \<times> jsval) list"
  gm_propertySources :: "(string \<times> sourceRecord list) list"
  gm_conflicts :: "(string \<times> conflictRecord list) list"
  gm_sources :: "mergeSource list"
  gm_mergedNodes :: "(string \<times> string) list"

text \<open>\<^verbatim>\<open>calls.find(c => c.id === callId)?.name || callId\<close>\<close>

definition callNameOf :: "call list \<Rightarrow> string \<Rightarrow> string" where
  "callNameOf calls callId =
     (case find (\<lambda>c. c_id c = callId) calls of
        None \<Rightarrow> callId
      | Some c \<Rightarrow> orElse (c_name c) callId)"

definition mergeItem ::
  "call list \<Rightarrow> groupItem \<Rightarrow> groupMerge \<Rightarrow> nat \<times> groupItem \<Rightarrow> error + groupMerge" where
  "mergeItem calls canonical gm indexed =
     (case deepMergeWithTracking (gm_mergedData gm) (gi_data (snd indexed))
             \<lparr>si_callId = hd (splitOn (CHR '':'') (gi_nodeId (snd indexed))),
               si_callName =
                 callNameOf calls (hd (splitOn (CHR '':'') (gi_nodeId (snd indexed)))),
               si_sourceIndex = fst indexed\<rparr>
             (gm_conflicts gm) (gm_propertySources gm) of
        Inl e \<Rightarrow> Inl e
      | Inr (mergedData, conflicts, propertySources) \<Rightarrow>
          Inr \<lparr>gm_mergedData = mergedData,
               gm_propertySources = propertySources,
               gm_conflicts = conflicts,
               gm_sources = gm_sources gm @
                 [\<lparr>ms_callId = hd (splitOn (CHR '':'') (gi_nodeId (snd indexed))),
                   ms_callName =
                     callNameOf calls (hd (splitOn (CHR '':'') (gi_nodeId (snd indexed)))),
                   ms_nodeId = gi_nodeId (snd indexed),
                   ms_data = gi_data (snd indexed)\<rparr>],
               gm_mergedNodes =
                 (if 0 < fst indexed
                  then mapSet (gi_nodeId (snd indexed)) (gi_nodeId canonical)
                         (gm_mergedNodes gm)
                  else gm_mergedNodes gm)\<rparr>)"

record secondPass =
  sp_mappings :: "(string \<times> mapping) list"
  sp_mergedNodes :: "(string \<times> string) list"

text \<open>The body of the loop over the groups.\<close>

definition mergeGroup ::
  "(jsval \<Rightarrow> string \<Rightarrow> jsval) \<Rightarrow> call list \<Rightarrow> secondPass \<Rightarrow> string \<times> groupItem list
     \<Rightarrow> error + secondPass" where
  "mergeGroup builtin calls st keyed_group =
     (case snd keyed_group of
        [] \<Rightarrow> Inr st
      | canonical # others \<Rightarrow>
          (case foldE (mergeItem calls canonical)
                  \<lparr>gm_mergedData = [], gm_propertySources = [], gm_conflicts = [],
                    gm_sources = [], gm_mergedNodes = sp_mergedNodes st\<rparr>
                  (zip [0..<length (snd keyed_group)] (snd keyed_group)) of
             Inl e \<Rightarrow> Inl e
           | Inr gm \<Rightarrow>
               (case jsString (displayValueOf builtin (gi_data canonical)
                                 (gi_entityConfig canonical) (gi_entityType canonical)) of
                  Inl e \<Rightarrow> Inl e
                | Inr label \<Rightarrow>
                    Inr \<lparr>sp_mappings =
                           mapSet (gi_nodeId canonical)
                             \<lparr>mp_entityType = gi_entityType canonical,
                               mp_entityLabel = label,
                               mp_color = orElse (ec_color (gi_entityConfig canonical))
                                            ''#4F46E5'',
                               mp_data = JObj (gm_mergedData gm),
                               mp_merged = Some
                                 \<lparr>mi_sources = gm_sources gm,
                                   mi_propertySources = gm_propertySources gm,
                                   mi_conflicts = gm_conflicts gm,
                                   mi_sourceCount = length (snd keyed_group),
                                   mi_hasConflicts = (0 < length (gm_conflicts gm))\<rparr>\<rparr>
                             (sp_mappings st),
                         sp_mergedNodes = gm_mergedNodes gm\<rparr>)))"

text \<open>
  \<^verbatim>\<open>computeNodeMappings\<close>. The entity configurations come as the object
  \<^verbatim>\<open>entityMap\<close> that the function fills from the store, by entity id.
\<close>

definition computeNodeMappings ::
  "(jsval \<Rightarrow> string \<Rightarrow> jsval) \<Rightarrow> (string \<times> entityConfig) list \<Rightarrow> call list
     \<Rightarrow> error + ((string \<times> mapping) list \<times> (string \<times> string) list)" where
  "computeNodeMappings builtin entityMap calls =
     (case foldE (collectCall builtin entityMap)
             \<lparr>fp_mappings = [], fp_entityGroups = []\<rparr> calls of
        Inl e \<Rightarrow> Inl e
      | Inr collected \<Rightarrow>
          (case foldE (mergeGroup builtin calls)
                  \<lparr>sp_mappings = fp_mappings collected, sp_mergedNodes = []\<rparr>
                  (fp_entityGroups collected) of
             Inl e \<Rightarrow> Inl e
           | Inr st \<Rightarrow> Inr (sp_mappings st, sp_mergedNodes st)))"

section \<open>Properties of the path engine\<close>

lemma depth_foldl_acc:
  "foldl (\<lambda>depth tok. depth + tokenDepth tok) a ast = a + getPathDepthAst ast"
proof (induction ast arbitrary: a)
  case Nil
  show ?case by (simp add: getPathDepthAst_def)
next
  case (Cons t ts)
  have "foldl (\<lambda>depth tok. depth + tokenDepth tok) a (t # ts)
        = (a + tokenDepth t) + getPathDepthAst ts"
    using Cons.IH [of "a + tokenDepth t"] by simp
  moreover have "getPathDepthAst (t # ts) = tokenDepth t + getPathDepthAst ts"
    using Cons.IH [of "tokenDepth t"] by (simp add: getPathDepthAst_def)
  ultimately show ?case by simp
qed

lemma getPathDepthAst_Cons:
  "getPathDepthAst (t # ts) = tokenDepth t + getPathDepthAst ts"
  using depth_foldl_acc [of "tokenDepth t" ts] by (simp add: getPathDepthAst_def)

lemma getPathDepthAst_count:
  "getPathDepthAst ast = length (filter (\<lambda>tok. tok \<noteq> ROOT) ast)"
proof (induction ast)
  case Nil
  show ?case by (simp add: getPathDepthAst_def)
next
  case (Cons t ts)
  then show ?case by (cases t) (simp_all add: getPathDepthAst_Cons)
qed

lemma applyToken_appends:
  assumes "m' \<in> set (applyToken tok m)"
  shows "if tok = ROOT then m_path m' = m_path m
         else \<exists>s. m_path m' = m_path m @ [s]"
proof (cases tok)
  case ROOT
  with assms show ?thesis by simp
next
  case (FIELD k)
  with assms show ?thesis
    by (cases "isNonArrayObject (m_value m)"; cases "lookupIn (m_value m) k") auto
next
  case ALL_ITEMS
  with assms show ?thesis by (cases "m_value m") auto
next
  case (INDEX n)
  with assms show ?thesis by (cases "m_value m") (auto split: if_splits)
qed

lemma applyToken_path_length:
  assumes "m' \<in> set (applyToken tok m)"
  shows "length (m_path m') = length (m_path m) + tokenDepth tok"
  using applyToken_appends [OF assms] by (cases tok) auto

lemma stepToken_path_length:
  assumes "\<forall>m \<in> set rs. length (m_path m) = n"
    and "m' \<in> set (stepToken rs tok)"
  shows "length (m_path m') = n + tokenDepth tok"
  using assms applyToken_path_length by (fastforce simp: stepToken_def)

lemma foldl_stepToken_path_length:
  "\<forall>m \<in> set rs. length (m_path m) = n \<Longrightarrow> m' \<in> set (foldl stepToken rs ast)
   \<Longrightarrow> length (m_path m') = n + getPathDepthAst ast"
proof (induction ast arbitrary: rs n)
  case Nil
  then show ?case by (simp add: getPathDepthAst_def)
next
  case (Cons t ts)
  have "\<forall>m \<in> set (stepToken rs t). length (m_path m) = n + tokenDepth t"
    using Cons.prems(1) stepToken_path_length by blast
  from Cons.IH [OF this] Cons.prems(2) show ?case
    by (simp add: getPathDepthAst_Cons)
qed

lemma evaluateAst_path_length:
  assumes "m \<in> set (evaluateAst data ast)"
  shows "length (m_path m) = getPathDepthAst ast"
proof (cases "ast = []")
  case True
  with assms show ?thesis by (simp add: evaluateAst_def getPathDepthAst_def)
next
  case False
  have base: "\<forall>m \<in> set [\<lparr>m_value = data, m_path = []\<rparr>]. length (m_path m) = 0"
    by simp
  from False assms
  have "m \<in> set (foldl stepToken [\<lparr>m_value = data, m_path = []\<rparr>] ast)"
    by (simp add: evaluateAst_def)
  from foldl_stepToken_path_length [OF base this] show ?thesis by simp
qed

text \<open>
  C10. Every match that \<^verbatim>\<open>evaluatePath\<close> returns has a concrete path with as many
  segments as the depth of the path, which is the number of its tokens other than
  Root: a Root token hands the concrete path on unchanged, and a Field, Index or
  AllItems token appends exactly one segment to it.
\<close>

theorem C10_concrete_path_length_is_depth:
  "(\<forall>m \<in> set (evaluateAst data ast).
       length (m_path m) = getPathDepthAst ast)
   \<and> getPathDepthAst ast = length (filter (\<lambda>tok. tok \<noteq> ROOT) ast)
   \<and> (\<forall>m' \<in> set (applyToken tok m).
         if tok = ROOT then m_path m' = m_path m
         else \<exists>s. m_path m' = m_path m @ [s])"
  using evaluateAst_path_length getPathDepthAst_count applyToken_appends by blast

theorem C10_witness:
  "evaluateAst (JObj [(''a'', JArr 0 [JNum 1, JNum 2])]) [ROOT, FIELD ''a'', ALL_ITEMS]
     = [\<lparr>m_value = JNum 1, m_path = [Key ''a'', Idx 0]\<rparr>,
        \<lparr>m_value = JNum 2, m_path = [Key ''a'', Idx 1]\<rparr>]
   \<and> length [Key ''a'', Idx 1] = getPathDepthAst [ROOT, FIELD ''a'', ALL_ITEMS]
   \<and> getPathDepthAst [ROOT, FIELD ''a'', ALL_ITEMS]
       = length (filter (\<lambda>tok. tok \<noteq> ROOT) [ROOT, FIELD ''a'', ALL_ITEMS])"
proof -
  let ?D = "JObj [(''a'', JArr 0 [JNum 1, JNum 2])]"
  let ?A = "[ROOT, FIELD ''a'', ALL_ITEMS]"
  let ?m = "\<lparr>m_value = JNum 2, m_path = [Key ''a'', Idx 1]\<rparr>"
  have ev: "evaluateAst ?D ?A
     = [\<lparr>m_value = JNum 1, m_path = [Key ''a'', Idx 0]\<rparr>, ?m]"
    by (simp add: evaluateAst_def stepToken_def upt_rec)
  note inst = C10_concrete_path_length_is_depth [of ?D ?A ROOT ?m]
  from inst have all: "\<forall>m \<in> set (evaluateAst ?D ?A). length (m_path m) = getPathDepthAst ?A"
    by (rule conjunct1)
  have "?m \<in> set (evaluateAst ?D ?A)" by (simp add: ev)
  with all have "length (m_path ?m) = getPathDepthAst ?A" by (rule bspec)
  then have len: "length [Key ''a'', Idx 1] = getPathDepthAst ?A" by simp
  from inst have cnt: "getPathDepthAst ?A = length (filter (\<lambda>tok. tok \<noteq> ROOT) ?A)"
    by (rule conjunct1 [OF conjunct2])
  from ev len cnt show ?thesis by (intro conjI)
qed

text \<open>
  C3 on the code: the object \<^verbatim>\<open>{"name": "x"}\<close> has no own key \<^verbatim>\<open>toString\<close>, and the
  path \<^verbatim>\<open>toString\<close> still matches on it, with the inherited function as the value.
\<close>

theorem C3_inherited_key_matches:
  "evaluatePath (JObj [(''name'', JStr ''x'')]) (PathString ''toString'')
     = Inr [\<lparr>m_value = JBuiltin ''toString'', m_path = [Key ''toString'']\<rparr>]
   \<and> ''toString'' \<notin> set (ownKeys (JObj [(''name'', JStr ''x'')]))"
  by code_simp

text \<open>
  C5 on the code: \<^verbatim>\<open>evaluatePath\<close> never raises on a parsed path, but a field that the
  data does not have can match all the same. On the empty object the path
  \<^verbatim>\<open>constructor\<close> returns one match.
\<close>

theorem C5_missing_field_matches:
  "evaluatePath (JObj []) (PathString ''constructor'')
     = Inr [\<lparr>m_value = JBuiltin ''constructor'', m_path = [Key ''constructor'']\<rparr>]
   \<and> evaluateAst (JObj []) [FIELD ''constructor''] \<noteq> []
   \<and> ownKeys (JObj []) = []"
  by code_simp


section \<open>Facts about loops and maps\<close>




section \<open>Properties of the edge deriver\<close>

text \<open>
  The condition of the specification for an edge of a relation from \<open>fromEntity\<close> to
  \<open>toEntity\<close>: the relation names a foreign-key path, the two entities have the
  relation's types, and the stringified foreign-key value read from the raw data of
  \<open>toEntity\<close> is the stringified primary key of \<open>fromEntity\<close>.
\<close>

definition fkMatches :: "relation \<Rightarrow> entity \<Rightarrow> entity \<Rightarrow> bool" where
  "fkMatches rel toEntity fromEntity =
     (rel_toFk rel \<noteq> [] \<and> e_type toEntity = rel_to rel \<and> e_type fromEntity = rel_from rel
      \<and> (case evaluatePathSingle (e_data toEntity) (PathString (rel_toFk rel)) of
            Inl e \<Rightarrow> False
          | Inr fkValue \<Rightarrow>
              \<not> nullish fkValue
              \<and> (case jsString fkValue of
                    Inl e \<Rightarrow> False
                  | Inr fkString \<Rightarrow> jsString (e_pk fromEntity) = Inr fkString)))"

text \<open>The edge object pushed for a source and a target.\<close>

definition interEdge :: "string \<Rightarrow> string \<Rightarrow> edge" where
  "interEdge src tgt =
     \<lparr>edge_id = ''inter-'' @ src @ ''-'' @ tgt, edge_source = src, edge_target = tgt,
      edge_type = ''inter''\<rparr>"

subsection \<open>Concrete entity sets\<close>

text \<open>
  An entity as extraction builds it from an object with a string under \<^verbatim>\<open>id\<close>.
\<close>

definition keyed :: "string \<Rightarrow> string \<Rightarrow> (string \<times> jsval) list \<Rightarrow> entity" where
  "keyed entityType pk props =
     \<lparr>e_id = entityType @ ''-'' @ pk, e_type = entityType, e_pk = JStr pk,
      e_data = JObj ((''id'', JStr pk) # props), e_label = pk, e_color = ''#4F46E5'',
      e_callId = ''call-1'', e_extractPath = []\<rparr>"

text \<open>
  Two relations whose matching pairs have the same edge id: from \<^verbatim>\<open>a-x\<close> to
  \<^verbatim>\<open>b-y-z\<close>, and from \<^verbatim>\<open>a-x-b\<close> to \<^verbatim>\<open>y-z\<close>.
\<close>

definition collidingEntities :: "entity list" where
  "collidingEntities =
     [keyed ''a'' ''x'' [], keyed ''a'' ''x-b'' [],
      keyed ''b'' ''y-z'' [(''f'', JStr ''x'')], keyed ''y'' ''z'' [(''f'', JStr ''x-b'')]]"

definition collidingRelations :: "relation list" where
  "collidingRelations =
     [\<lparr>rel_from = ''a'', rel_to = ''b'', rel_toFk = ''f'', rel_fromPk = []\<rparr>,
      \<lparr>rel_from = ''a'', rel_to = ''y'', rel_toFk = ''f'', rel_fromPk = []\<rparr>]"

text \<open>
  C7 on the code: the entity \<^verbatim>\<open>y-z\<close> carries the foreign key \<^verbatim>\<open>x-b\<close>, which is
  the primary key of the entity \<^verbatim>\<open>a-x-b\<close> of the relation's \<^verbatim>\<open>from\<close> type, yet the
  list returned holds no edge from \<^verbatim>\<open>a-x-b\<close> to \<^verbatim>\<open>y-z\<close>: its id
  \<^verbatim>\<open>inter-a-x-b-y-z\<close> is already taken by the edge from \<^verbatim>\<open>a-x\<close> to \<^verbatim>\<open>b-y-z\<close>.
\<close>

theorem C7_colliding_edge_ids:
  "calculateInterEdges collidingEntities collidingRelations []
     = Inr [interEdge ''a-x'' ''b-y-z'']
   \<and> fkMatches \<lparr>rel_from = ''a'', rel_to = ''y'', rel_toFk = ''f'', rel_fromPk = []\<rparr>
        (keyed ''y'' ''z'' [(''f'', JStr ''x-b'')]) (keyed ''a'' ''x-b'' [])
   \<and> keyed ''y'' ''z'' [(''f'', JStr ''x-b'')] \<in> set collidingEntities
   \<and> keyed ''a'' ''x-b'' [] \<in> set collidingEntities
   \<and> \<not> (\<exists>ed \<in> set [interEdge ''a-x'' ''b-y-z''].
            edge_source ed = e_id (keyed ''a'' ''x-b'' [])
            \<and> edge_target ed = e_id (keyed ''y'' ''z'' [(''f'', JStr ''x-b'')]))"
  by code_simp

section \<open>Properties of the extractor\<close>

text \<open>The configuration of an entity type keyed and shown by \<^verbatim>\<open>id\<close>.\<close>

definition idConfig :: "string \<Rightarrow> entityConfig" where
  "idConfig label =
     \<lparr>ec_label = label, ec_pk = ''id'', ec_displayField = ''id'', ec_color = ''#4F46E5''\<rparr>"

text \<open>Source and target of the edges of a result, and id and path key of its entities.\<close>

definition sourceTargets :: "error + (entity list \<times> edge list) \<Rightarrow> (error + (string \<times> string) list)" where
  "sourceTargets r =
     (case r of
        Inl e \<Rightarrow> Inl e
      | Inr (entities, edges) \<Rightarrow> Inr (map (\<lambda>ed. (edge_source ed, edge_target ed)) edges))"

definition entityPaths :: "error + (entity list \<times> edge list) \<Rightarrow> (error + (string \<times> string) list)" where
  "entityPaths r =
     (case r of
        Inl e \<Rightarrow> Inl e
      | Inr (entities, edges) \<Rightarrow> Inr (map (\<lambda>e. (e_id e, e_extractPath e)) entities))"

text \<open>
  Three nested objects extracted by three rules, and the document and rules of the
  specification's example with a root object and two items.
\<close>

definition nestedDocument :: jsval where
  "nestedDocument =
     JObj [(''a'', JObj [(''id'', JNum 1),
                         (''b'', JObj [(''id'', JNum 2),
                                       (''c'', JObj [(''id'', JNum 3)])])])]"

definition nestedRules :: "extraction list" where
  "nestedRules =
     [\<lparr>ext_entity = ''A'', ext_path = ''a''\<rparr>,
      \<lparr>ext_entity = ''B'', ext_path = ''a.b''\<rparr>,
      \<lparr>ext_entity = ''C'', ext_path = ''a.b.c''\<rparr>]"

definition itemsDocument :: jsval where
  "itemsDocument =
     JObj [(''id'', JNum 1),
           (''items'', JArr 0 [JObj [(''id'', JNum 10)], JObj [(''id'', JNum 11)]])]"

definition itemsRules :: "extraction list" where
  "itemsRules =
     [\<lparr>ext_entity = ''root'', ext_path = ''$''\<rparr>,
      \<lparr>ext_entity = ''item'', ext_path = ''$.items[*]''\<rparr>]"

text \<open>
  C2 on the code. The entity at \<^verbatim>\<open>a.b.c\<close> gets the entity at \<^verbatim>\<open>a\<close> as its parent,
  although the entity at \<^verbatim>\<open>a.b\<close> was extracted before it and has the longer prefix:
  the first entry of the map that is a prefix is kept. The root entity, whose path key
  is empty, is the parent of nothing: the two items of the second document get no
  edge. In the parent search of \<^verbatim>\<open>extractWithContext\<close> the entity at \<^verbatim>\<open>a.b\<close> is
  taken as the parent of the entity at \<^verbatim>\<open>a.bc\<close>.
\<close>

theorem C2_first_prefix_is_kept:
  "entityPaths (extractFromCall ''call-1'' nestedDocument nestedRules
       [(''A'', idConfig ''A''), (''B'', idConfig ''B''), (''C'', idConfig ''C'')])
     = Inr [(''A-1'', ''a''), (''B-2'', ''a.b''), (''C-3'', ''a.b.c'')]
   \<and> sourceTargets (extractFromCall ''call-1'' nestedDocument nestedRules
       [(''A'', idConfig ''A''), (''B'', idConfig ''B''), (''C'', idConfig ''C'')])
     = Inr [(''A-1'', ''B-2''), (''A-1'', ''C-3'')]
   \<and> entityPaths (extractFromCall ''call-1'' itemsDocument itemsRules
       [(''root'', idConfig ''root''), (''item'', idConfig ''item'')])
     = Inr [(''root-1'', []), (''item-10'', ''items.0''), (''item-11'', ''items.1'')]
   \<and> sourceTargets (extractFromCall ''call-1'' itemsDocument itemsRules
       [(''root'', idConfig ''root''), (''item'', idConfig ''item'')])
     = Inr []
   \<and> findParentWithContext
         [(''a.b'', \<lparr>ce_entity = ''X'', ce_pk = JNum 1\<rparr>)] ''a.bc''
       = Inr (Some \<lparr>ce_entity = ''X'', ce_pk = JNum 1\<rparr>)"
  by code_simp

section \<open>Properties of the merge engine\<close>






lemma sequenceE_map_Inr: "sequenceE (map Inr xs) = Inr xs"
  by (induction xs) auto

lemma sequenceE_Inr:
  "sequenceE rs = Inr xs \<longleftrightarrow> rs = map Inr xs"
proof
  show "sequenceE rs = Inr xs \<Longrightarrow> rs = map Inr xs"
  proof (induction rs arbitrary: xs)
    case Nil
    then show ?case by auto
  next
    case (Cons r rs)
    then show ?case by (cases r) (auto split: sum.splits)
  qed
  show "rs = map Inr xs \<Longrightarrow> sequenceE rs = Inr xs"
    by (simp add: sequenceE_map_Inr)
qed





section \<open>Failures of the core\<close>

text \<open>A call whose document has a key named like a member of \<^verbatim>\<open>Object.prototype\<close>.\<close>

definition constructorCall :: call where
  "constructorCall =
     \<lparr>c_id = ''call-1'', c_name = ''Call 1'',
      c_parsedJson = JObj [(''id'', JNum 1), (''constructor'', JStr ''x'')],
      c_extractions = [\<lparr>ext_entity = ''client'', ext_path = ''$''\<rparr>]\<rparr>"

text \<open>
  C4 on the code: the core has failures that are no syntax errors. Merging an entity
  whose document has the key \<^verbatim>\<open>constructor\<close> raises a \<^verbatim>\<open>TypeError\<close> (the tracking
  object for conflicts inherits a member of that name, which has no \<^verbatim>\<open>push\<close>), and so
  does extracting an entity whose primary key is an object with an own entry
  \<^verbatim>\<open>toString\<close>, although every path involved parses.
\<close>

theorem C4_type_errors:
  "computeNodeMappings (\<lambda>v k. JUndefined) [(''client'', idConfig ''Client'')] [constructorCall]
     = Inl TypeError
   \<and> \<not> isPathSyntaxError TypeError
   \<and> parsePath ''$'' = Inr [ROOT]
   \<and> parsePath ''id'' = Inr [FIELD ''id'']
   \<and> extractFromCall ''call-1'' (JObj [(''id'', JObj [(''toString'', JNum 1)])])
        [\<lparr>ext_entity = ''client'', ext_path = ''$''\<rparr>] [(''client'', idConfig ''Client'')]
     = Inl TypeError"
  by code_simp

section \<open>Conflicts of the merge engine\<close>

text \<open>
  The conflicts that \<^verbatim>\<open>computeNodeMappings\<close> reports for a node: the path of each
  entry of \<^verbatim>\<open>conflicts\<close> with the old and the new value of each of its records.
\<close>

definition mergedConflicts ::
  "error + ((string \<times> mapping) list \<times> (string \<times> string) list) \<Rightarrow> string
     \<Rightarrow> error + (string \<times> (jsval \<times> jsval) list) list" where
  "mergedConflicts r nodeId =
     (case r of
        Inl e \<Rightarrow> Inl e
      | Inr (mappings, mergedNodes) \<Rightarrow>
          Inr (case mapGet mappings nodeId of
                 None \<Rightarrow> []
               | Some m \<Rightarrow>
                   (case mp_merged m of
                      None \<Rightarrow> []
                    | Some info \<Rightarrow>
                        map (\<lambda>(path, records).
                               (path, map (\<lambda>c. (cf_oldValue c, cf_newValue c)) records))
                          (mi_conflicts info))))"

text \<open>A call whose document is extracted at its root as a \<^verbatim>\<open>client\<close>.\<close>

definition clientCall :: "string \<Rightarrow> jsval \<Rightarrow> call" where
  "clientCall callId document =
     \<lparr>c_id = callId, c_name = callId, c_parsedJson = document,
      c_extractions = [\<lparr>ext_entity = ''client'', ext_path = ''$''\<rparr>]\<rparr>"

text \<open>
  C1 on the code. The accumulator of the merge is an object made by \<^verbatim>\<open>{}\<close>, and the
  tracking objects are too, so a read of a path that was never set can find a member
  of \<^verbatim>\<open>Object.prototype\<close>, and two arrays with the same elements are different values.
  A group of one instance, \<^verbatim>\<open>{"id": 1, "meta": {"toString": "x"}}\<close>, gets a conflict on
  \<^verbatim>\<open>meta.toString\<close>, whose old value is the inherited function. Two instances with
  the same \<^verbatim>\<open>tags\<close>, \<^verbatim>\<open>["a"]\<close>, get a conflict on \<^verbatim>\<open>tags\<close>. An instance with the key
  \<^verbatim>\<open>constructor\<close> makes the merge raise a \<^verbatim>\<open>TypeError\<close>.
\<close>

theorem C1_spurious_conflicts:
  "mergedConflicts
     (computeNodeMappings (\<lambda>v k. JUndefined) [(''client'', idConfig ''Client'')]
        [clientCall ''c1'' (JObj [(''id'', JNum 1),
                                  (''meta'', JObj [(''toString'', JStr ''x'')])])])
     ''c1:$''
     = Inr [(''meta.toString'', [(JBuiltin ''toString'', JStr ''x'')])]
   \<and> mergedConflicts
     (computeNodeMappings (\<lambda>v k. JUndefined) [(''client'', idConfig ''Client'')]
        [clientCall ''c1'' (JObj [(''id'', JNum 1), (''tags'', JArr 1 [JStr ''a''])]),
         clientCall ''c2'' (JObj [(''id'', JNum 1), (''tags'', JArr 2 [JStr ''a''])])])
     ''c1:$''
     = Inr [(''tags'', [(JArr 1 [JStr ''a''], JArr 2 [JStr ''a''])])]
   \<and> computeNodeMappings (\<lambda>v k. JUndefined) [(''client'', idConfig ''Client'')]
        [clientCall ''c1'' (JObj [(''id'', JNum 1), (''constructor'', JStr ''x'')])]
     = Inl TypeError"
  by code_simp

section \<open>Merge groups and standalone mappings\<close>






























subsection \<open>Snapshots without prototype keys\<close>

































subsection \<open>The groups of a run\<close>









end
